theory Spec2Isabelle
  imports Main
begin

section \<open>Values on the wire\<close>

text \<open>
  Requests and responses carry values of TypeScript type \<open>any\<close>. The gateway never
  looks inside them, apart from comparing \<open>extra.admin\<close> with the string \<open>'true'\<close>,
  so a small JSON-like datatype is enough.
\<close>

datatype jsvalue =
    JUndefined
  | JNull
  | JBool bool
  | JNum int
  | JStr string
  | JObj "(string \<times> jsvalue) list"

text \<open>
  \<open>Status\<close> values of \<open>@hcengineering/platform\<close>; the front-end only ever builds
  \<open>UNAUTHORIZED\<close>.
\<close>

datatype status = UNAUTHORIZED | OtherStatus string

text \<open>
  \<open>Response<any>\<close> of \<open>@hcengineering/rpc\<close>: every field is optional.
\<close>

record response =
  resp_id :: "int option"
  resp_result :: "jsvalue option"
  resp_error :: "status option"

section \<open>The connection socket (\<open>createWebsocketClientSocket\<close>)\<close>

text \<open>
  The \<open>ws\<close> transport as \<open>send\<close> reads it: its \<open>readyState\<close> and the number of
  bytes queued and not yet written, \<open>bufferedAmount\<close>.
\<close>

datatype ready_state = CONNECTING | OPEN | CLOSING | CLOSED

record transport =
  readyState :: ready_state
  bufferedAmount :: nat

text \<open>
  One call of \<open>ws.send(data, {binary, compress}, cb)\<close>: the data and the two options;
  \<open>compress = None\<close> when the caller leaves the option out.
\<close>

record frame =
  data :: string
  binary :: bool
  compress :: "bool option"

text \<open>
  What a call of \<open>send\<close> does, in order: the call of \<open>serialize\<close>, each
  \<open>await\<close> on \<open>setImmediate\<close>, the call of \<open>ctx.measure\<close>, the call of \<open>ws.send\<close>.
\<close>

datatype send_event =
    Serialize response bool
  | Yield
  | Measure string nat
  | WsSend frame

text \<open>
  The promise returned by \<open>send\<close>: not settled yet, resolved with a byte count, or
  rejected with the error that the transport passed to the callback of \<open>ws.send\<close>.
\<close>

datatype 'e send_outcome = Pending | Resolved nat | Rejected 'e

text \<open>
  The loop
  \<^verbatim>\<open>while (ws.bufferedAmount > 128 && ws.readyState === ws.OPEN) { await setImmediate }\<close>.
  The transport changes only between two turns of the event loop, so the environment is
  the state \<open>w\<close> of the transport now and the list \<open>later\<close> of its states after each
  further \<open>setImmediate\<close>. The loop returns the number of completed yields and the
  state at which it left; \<open>None\<close> says that the call is still suspended after all
  the states of \<open>later\<close> have been seen.
\<close>

fun wait_drained :: "transport \<Rightarrow> transport list \<Rightarrow> (nat \<times> transport) option" where
  "wait_drained w [] =
     (if bufferedAmount w > 128 \<and> readyState w = OPEN then None else Some (0, w))"
| "wait_drained w (w' # later) =
     (if bufferedAmount w > 128 \<and> readyState w = OPEN
      then map_option (\<lambda>(n, u). (Suc n, u)) (wait_drained w' later)
      else Some (0, w))"

text \<open>
  \<open>cs.send(ctx, msg, binary, compression)\<close>. \<open>serialize\<close> is the function of
  \<open>@hcengineering/rpc\<close>, \<open>isClosed\<close> the flag of the socket when the call starts and
  \<open>write_err\<close> the error, if any, that the transport passes to the callback of
  \<open>ws.send\<close> (the callback rejects the promise with it and resolves it otherwise).
  The result is the state of the promise and the events of the call.
\<close>

definition send ::
  "(response \<Rightarrow> bool \<Rightarrow> string) \<Rightarrow> bool \<Rightarrow> transport \<Rightarrow> transport list \<Rightarrow> 'e option \<Rightarrow>
   response \<Rightarrow> bool \<Rightarrow> bool \<Rightarrow> 'e send_outcome \<times> send_event list" where
  "send serialize isClosed w later write_err msg binary_arg compression =
     (if readyState w \<noteq> OPEN \<and> \<not> isClosed then (Resolved 0, [])
      else
        let smsg = serialize msg binary_arg in
        (case wait_drained w later of
           None \<Rightarrow> (Pending, Serialize msg binary_arg # replicate (Suc (length later)) Yield)
         | Some (n, u) \<Rightarrow>
             (case write_err of Some e \<Rightarrow> Rejected e | None \<Rightarrow> Resolved (length smsg),
              Serialize msg binary_arg # replicate n Yield @
              [Measure ''send-data'' (length smsg),
               WsSend \<lparr>data = smsg, binary = True, compress = Some compression\<rparr>])))"

text \<open>The frames that a run of \<open>send\<close> handed to the transport.\<close>

fun written :: "send_event list \<Rightarrow> frame list" where
  "written [] = []"
| "written (WsSend f # es) = f # written es"
| "written (_ # es) = written es"

section \<open>Metrics and \<open>wipeStatistics\<close>\<close>

text \<open>
  \<open>Metrics\<close> and \<open>MetricsData\<close> of \<open>@hcengineering/core\<close>. Both carry the counters
  \<open>operations\<close>, \<open>value\<close> and \<open>topResult\<close>; only \<open>Metrics\<close> has the fields
  \<open>namedParams\<close>, \<open>params\<close> (an object of objects) and \<open>measurements\<close>. The test
  \<open>'measurements' in m\<close> of the source is the distinction of the two constructors.
  Objects are association lists in insertion order, the order of \<open>Object.values\<close>.
  The field \<open>value\<close> is \<open>mvalue\<close> here, and \<open>topResult = None\<close> is \<open>undefined\<close>.
\<close>

datatype metrics =
    MetricsData (operations: int) (mvalue: int) (topResult: "jsvalue option")
  | Metrics (operations: int) (mvalue: int) (topResult: "jsvalue option")
      (namedParams: "(string \<times> jsvalue) list")
      (params: "(string \<times> (string \<times> metrics) list) list")
      (measurements: "(string \<times> metrics) list")

text \<open>
  The source mutates the nodes of the tree in place and keeps references to them in the
  array \<open>toClean\<close>. A reference is the way from the root to the node: each step picks
  the \<open>i\<close>-th value of \<open>measurements\<close>, or the \<open>j\<close>-th value of the \<open>i\<close>-th value
  of \<open>params\<close>.
\<close>

datatype step = InMeasurements nat | InParams nat nat

type_synonym ref = "step list"

definition value_at :: "('k \<times> 'v) list \<Rightarrow> nat \<Rightarrow> 'v option" where
  "value_at xs i = (if i < length xs then Some (snd (xs ! i)) else None)"

definition modify_at :: "nat \<Rightarrow> ('v \<Rightarrow> 'v) \<Rightarrow> ('k \<times> 'v) list \<Rightarrow> ('k \<times> 'v) list" where
  "modify_at i f xs = (if i < length xs then xs[i := (fst (xs ! i), f (snd (xs ! i)))] else xs)"

fun sub :: "metrics \<Rightarrow> step \<Rightarrow> metrics option" where
  "sub (MetricsData ops v t) s = None"
| "sub (Metrics ops v t np ps ms) (InMeasurements i) = value_at ms i"
| "sub (Metrics ops v t np ps ms) (InParams i j) =
     (case value_at ps i of None \<Rightarrow> None | Some vs \<Rightarrow> value_at vs j)"

fun deref :: "metrics \<Rightarrow> ref \<Rightarrow> metrics option" where
  "deref m [] = Some m"
| "deref m (s # r) = (case sub m s of None \<Rightarrow> None | Some c \<Rightarrow> deref c r)"

fun put_sub :: "metrics \<Rightarrow> step \<Rightarrow> metrics \<Rightarrow> metrics" where
  "put_sub (MetricsData ops v t) s c = MetricsData ops v t"
| "put_sub (Metrics ops v t np ps ms) (InMeasurements i) c =
     Metrics ops v t np ps (modify_at i (\<lambda>_. c) ms)"
| "put_sub (Metrics ops v t np ps ms) (InParams i j) c =
     Metrics ops v t np (modify_at i (modify_at j (\<lambda>_. c)) ps) ms"

text \<open>\<open>assign f r root\<close>: the tree after the node that \<open>r\<close> refers to has been changed by \<open>f\<close>.\<close>

fun assign :: "(metrics \<Rightarrow> metrics) \<Rightarrow> ref \<Rightarrow> metrics \<Rightarrow> metrics" where
  "assign f [] m = f m"
| "assign f (s # r) m = (case sub m s of None \<Rightarrow> m | Some c \<Rightarrow> put_sub m s (assign f r c))"

text \<open>
  The three assignments of \<open>cleanMetrics\<close>:
  \<^verbatim>\<open>m.operations = 0; m.value = 0; m.topResult = undefined\<close>.
\<close>

fun reset :: "metrics \<Rightarrow> metrics" where
  "reset (MetricsData ops v t) = MetricsData 0 0 None"
| "reset (Metrics ops v t np ps ms) = Metrics 0 0 None np ps ms"

text \<open>
  The steps to the nodes that \<open>cleanMetrics\<close> pushes, in its order: none for a
  \<open>MetricsData\<close>; for a \<open>Metrics\<close> the values of \<open>measurements\<close>, then the values of
  each value of \<open>params\<close>.
\<close>

fun steps :: "metrics \<Rightarrow> step list" where
  "steps (MetricsData ops v t) = []"
| "steps (Metrics ops v t np ps ms) =
     map InMeasurements [0..<length ms] @
     concat (map (\<lambda>i. map (InParams i) [0..<length (snd (ps ! i))]) [0..<length ps])"

text \<open>
  \<open>cleanMetrics(m)\<close>, on the tree and the array \<open>toClean\<close> that the source closes over.
  A reference that leads nowhere does not occur in the source; the model leaves the
  state as it is there.
\<close>

definition cleanMetrics :: "ref \<Rightarrow> metrics \<times> ref list \<Rightarrow> metrics \<times> ref list" where
  "cleanMetrics r st =
     (case st of (root, toClean) \<Rightarrow>
        (case deref root r of
           None \<Rightarrow> (root, toClean)
         | Some m \<Rightarrow> (assign reset r root, toClean @ map (\<lambda>s. r @ [s]) (steps m))))"

text \<open>
  The number of nodes of a tree, and the weight of a reference: the measure under which
  the loop of \<open>wipeStatistics\<close> ends.
\<close>

lemma size_snd_nth: "i < length xs \<Longrightarrow> f (snd (xs ! i)) < Suc (size_list (size_prod g f) xs)"
proof -
  assume "i < length xs"
  then have "xs ! i \<in> set xs" by simp
  then have "size_prod g f (xs ! i) \<le> size_list (size_prod g f) xs"
    by (simp add: size_list_estimation')
  moreover have "f (snd (xs ! i)) < size_prod g f (xs ! i)"
    by (cases "xs ! i") simp
  ultimately show ?thesis by simp
qed

lemma value_at_size:
  "value_at xs i = Some v \<Longrightarrow> f v < Suc (size_list (size_prod g f) xs)"
  by (auto simp: value_at_def size_snd_nth split: if_splits)

lemma sub_size:
  assumes "sub m s = Some c"
  shows "size c < size m"
proof (cases m)
  case (MetricsData ops v t)
  with assms show ?thesis by simp
next
  case (Metrics ops v t np ps ms)
  show ?thesis
  proof (cases s)
    case (InMeasurements i)
    with Metrics assms have "value_at ms i = Some c" by simp
    from value_at_size[OF this, of size "\<lambda>_. 0"] Metrics show ?thesis
      by simp
  next
    case (InParams i j)
    with Metrics assms obtain vs where i: "value_at ps i = Some vs" "value_at vs j = Some c"
      by (auto split: option.splits)
    from value_at_size[OF i(2), of size "\<lambda>_. 0"]
    have "size c \<le> size_list (size_prod (\<lambda>_. 0) size) vs" by simp
    also from value_at_size[OF i(1), of "size_list (size_prod (\<lambda>_. 0) size)" "\<lambda>_. 0"]
    have "\<dots> < Suc (size_list (size_prod (\<lambda>_. 0) (size_list (size_prod (\<lambda>_. 0) size))) ps)" .
    finally show ?thesis using Metrics by simp
  qed
qed

function count :: "metrics \<Rightarrow> nat" where
  "count m = Suc (sum_list (map (\<lambda>s. case sub m s of None \<Rightarrow> 0 | Some c \<Rightarrow> count c) (steps m)))"
  by pat_completeness auto
termination
  by (relation "measure size") (auto simp: sub_size)

declare count.simps [simp del]

definition weight :: "metrics \<Rightarrow> ref \<Rightarrow> nat" where
  "weight root r = (case deref root r of None \<Rightarrow> 1 | Some m \<Rightarrow> count m)"

definition zeroed :: "metrics \<Rightarrow> bool" where
  "zeroed m \<longleftrightarrow> operations m = 0 \<and> mvalue m = 0 \<and> topResult m = None"

text \<open>
  The invariant of the loop: every node of the tree has zero counters or lies at or
  below a reference that is still in \<open>toClean\<close>.
\<close>

definition covered :: "metrics \<Rightarrow> ref list \<Rightarrow> bool" where
  "covered root toClean \<longleftrightarrow>
     (\<forall>p m. deref root p = Some m \<longrightarrow> zeroed m \<or> (\<exists>r \<in> set toClean. \<exists>p'. p = r @ p'))"

definition tops :: "metrics \<Rightarrow> int \<times> int \<times> jsvalue option" where
  "tops m = (operations m, mvalue m, topResult m)"

lemma deref_append: "deref m (r @ r') = (case deref m r of None \<Rightarrow> None | Some c \<Rightarrow> deref c r')"
  by (induction r arbitrary: m) (auto split: option.splits)

lemma length_modify_at [simp]: "length (modify_at i f xs) = length xs"
  by (simp add: modify_at_def)

lemma value_at_modify_at:
  "value_at (modify_at i f xs) k = (if k = i then map_option f (value_at xs k) else value_at xs k)"
  by (auto simp: value_at_def modify_at_def)

lemma steps_iff: "s \<in> set (steps m) \<longleftrightarrow> sub m s \<noteq> None"
proof (cases m)
  case (MetricsData ops v t)
  then show ?thesis by simp
next
  case (Metrics ops v t np ps ms)
  show ?thesis
  proof (cases s)
    case (InMeasurements i)
    with Metrics show ?thesis by (auto simp: value_at_def)
  next
    case (InParams i j)
    have "InParams i j \<in> set (steps m) \<longleftrightarrow> i < length ps \<and> j < length (snd (ps ! i))"
      using Metrics by (auto simp: image_iff Bex_def)
    with Metrics InParams show ?thesis
      by (auto simp: value_at_def)
  qed
qed

lemma sub_put_sub:
  "sub m s = Some c \<Longrightarrow> sub (put_sub m s c') s' = (if s' = s then Some c' else sub m s')"
  by (cases m; cases s; cases s')
     (auto simp: value_at_modify_at split: option.splits)

lemma steps_put_sub: "steps (put_sub m s c') = steps m"
proof (cases m)
  case (MetricsData ops v t)
  then show ?thesis by simp
next
  case (Metrics ops v t np ps ms)
  show ?thesis
  proof (cases s)
    case (InMeasurements i)
    with Metrics show ?thesis by simp
  next
    case (InParams i j)
    have "length (snd (modify_at i (modify_at j (\<lambda>_. c')) ps ! k)) = length (snd (ps ! k))"
      if "k < length ps" for k
      using that by (auto simp: modify_at_def nth_list_update)
    with Metrics InParams show ?thesis
      by (auto intro!: arg_cong[where f=concat])
  qed
qed

lemma sub_reset: "sub (reset m) s = sub m s"
  by (cases m; cases s) auto

lemma steps_reset: "steps (reset m) = steps m"
  by (cases m) auto

lemma count_reset: "count (reset m) = count m"
  by (simp add: count.simps[of "reset m"] count.simps[of m] sub_reset steps_reset)

lemma count_put_sub:
  assumes "sub m s = Some c" "count c' = count c"
  shows "count (put_sub m s c') = count m"
proof -
  have "(case sub (put_sub m s c') s' of None \<Rightarrow> 0 | Some d \<Rightarrow> count d) =
        (case sub m s' of None \<Rightarrow> 0 | Some d \<Rightarrow> count d)" for s'
    using assms by (simp add: sub_put_sub)
  then show ?thesis
    by (simp add: count.simps[of "put_sub m s c'"] count.simps[of m] steps_put_sub)
qed

lemma count_assign: "count (assign reset r m) = count m"
proof (induction r arbitrary: m)
  case Nil
  then show ?case by (simp add: count_reset)
next
  case (Cons s r)
  then show ?case by (auto split: option.splits simp: count_put_sub)
qed

lemma zeroed_reset: "zeroed (reset m)"
  by (cases m) (auto simp: zeroed_def)

lemma tops_put_sub: "tops (put_sub m s c) = tops m"
  by (cases m; cases s) (auto simp: tops_def)

text \<open>
  What one assignment through a reference \<open>v\<close> does to the node behind any reference
  \<open>p\<close>: the node is still there, with the same children; its counters are zero when
  \<open>p = v\<close> and as before otherwise.
\<close>

lemma deref_assign:
  "rel_option (\<lambda>m m'. count m' = count m \<and> steps m' = steps m \<and>
                       (if p = v then zeroed m' else tops m' = tops m))
     (deref root p) (deref (assign reset v root) p)"
proof (induction v arbitrary: root p)
  case Nil
  show ?case
  proof (cases p)
    case Nil
    then show ?thesis by (simp add: count_reset steps_reset zeroed_reset)
  next
    case (Cons s p')
    then show ?thesis by (simp add: sub_reset option.rel_refl)
  qed
next
  case (Cons s v')
  show ?case
  proof (cases "sub root s")
    case None
    then show ?thesis
      by (cases "p = s # v'") (auto simp: option.rel_refl)
  next
    case (Some c)
    show ?thesis
    proof (cases p)
      case Nil
      with Some show ?thesis
        by (simp add: count_put_sub count_assign steps_put_sub tops_put_sub)
    next
      case (Cons s2 p')
      show ?thesis
      proof (cases "s2 = s")
        case True
        with Some Cons Cons.IH[of p' c] show ?thesis
          by (simp add: sub_put_sub)
      next
        case False
        with Some Cons show ?thesis
          by (simp add: sub_put_sub option.rel_refl)
      qed
    qed
  qed
qed

lemma weight_assign: "weight (assign reset v root) r = weight root r"
  using deref_assign[of r v root]
  by (cases "deref root r"; cases "deref (assign reset v root) r") (auto simp: weight_def)

lemma weight_children:
  assumes "deref root v = Some m"
  shows "Suc (sum_list (map (\<lambda>s. weight root (v @ [s])) (steps m))) = count m"
proof -
  have "weight root (v @ [s]) = (case sub m s of None \<Rightarrow> 0 | Some c \<Rightarrow> count c)"
    if "s \<in> set (steps m)" for s
    using that assms by (auto simp: weight_def deref_append steps_iff split: option.splits)
  then have "map (\<lambda>s. weight root (v @ [s])) (steps m) =
             map (\<lambda>s. case sub m s of None \<Rightarrow> 0 | Some c \<Rightarrow> count c) (steps m)"
    by (intro map_cong refl)
  then show ?thesis by (subst count.simps) (simp only:)
qed

text \<open>
  The loop of \<open>wipeStatistics\<close>:
  \<^verbatim>\<open>while (toClean.length > 0) { const v = toClean.shift(); ...; cleanMetrics(v) }\<close>.
  The test \<open>v === undefined\<close> of the source never holds: the array is not empty and
  holds references only.
\<close>

function wipe_loop :: "metrics \<Rightarrow> ref list \<Rightarrow> metrics" where
  "wipe_loop root [] = root"
| "wipe_loop root (v # toClean) =
     (case cleanMetrics v (root, toClean) of (root', toClean') \<Rightarrow> wipe_loop root' toClean')"
  by pat_completeness auto
termination
proof (relation "measure (\<lambda>(root, toClean). sum_list (map (weight root) toClean))", goal_cases)
  case 1
  show ?case by simp
next
  case (2 root v toClean root' toClean')
  show ?case
  proof (cases "deref root v")
    case None
    with 2 show ?thesis by (auto simp: cleanMetrics_def weight_def)
  next
    case (Some m)
    with 2 have eq: "root' = assign reset v root" "toClean' = toClean @ map (\<lambda>s. v @ [s]) (steps m)"
      by (auto simp: cleanMetrics_def)
    have "sum_list (map (weight root') toClean') =
          sum_list (map (weight root) toClean) + sum_list (map (\<lambda>s. weight root (v @ [s])) (steps m))"
      by (simp add: eq weight_assign[abs_def] comp_def)
    also have "\<dots> < sum_list (map (weight root) toClean) + weight root v"
      using weight_children[OF Some] Some by (simp add: weight_def)
    finally show ?thesis by simp
  qed
qed

text \<open>
  A \<open>MeasureContext\<close>: the class \<open>MeasureMetricsContext\<close>, which holds the tree of
  metrics, or any other implementation of the interface, which \<open>wipeStatistics\<close> leaves
  alone (\<open>ctx instanceof MeasureMetricsContext\<close>).
\<close>

datatype measure_context = MeasureMetricsContext metrics | OtherMeasureContext

fun wipeStatistics :: "measure_context \<Rightarrow> measure_context" where
  "wipeStatistics (MeasureMetricsContext m) = MeasureMetricsContext (wipe_loop m [[]])"
| "wipeStatistics OtherMeasureContext = OtherMeasureContext"

section \<open>Tokens\<close>

text \<open>
  \<open>Token\<close> and \<open>WorkspaceId\<close> as \<open>decodeToken\<close> of \<open>@hcengineering/server-token\<close>
  returns them. \<open>extra\<close> is an optional object of arbitrary values. The decoder itself
  is a parameter \<open>decodeToken :: string \<Rightarrow> token option\<close> of every handler; \<open>None\<close> is
  the exception it throws.
\<close>

record workspace_id =
  ws_name :: string
  productId :: string

record token =
  email :: string
  workspace :: workspace_id
  extra :: "(string \<times> jsvalue) list option"

text \<open>\<open>payload.extra?.k\<close>\<close>

definition extra_field :: "token \<Rightarrow> string \<Rightarrow> jsvalue" where
  "extra_field payload k =
     (case extra payload of
        None \<Rightarrow> JUndefined
      | Some e \<Rightarrow> (case map_of e k of None \<Rightarrow> JUndefined | Some v \<Rightarrow> v))"

section \<open>The registries of the session manager (\<open>types.ts\<close>)\<close>

record statistics_element =
  find_count :: int
  tx_count :: int

text \<open>
  The fields of \<open>Session\<close> and \<open>ConnectionSocket\<close> that the front-end and the statistics
  read; \<open>user\<close> is \<open>getUser()\<close>, \<open>upgradeClient\<close> is \<open>isUpgradeClient()\<close>, \<open>cs_data\<close>
  is \<open>data()\<close>.
\<close>

record session =
  user :: string
  sessionId :: string
  binaryMode :: bool
  useCompression :: bool
  useBroadcast :: bool
  total :: statistics_element
  current :: statistics_element
  mins5 :: statistics_element
  upgradeClient :: bool

record connection_socket =
  cs_id :: string
  isClosed :: bool
  cs_data :: jsvalue

text \<open>
  \<open>Workspace\<close>. Its \<open>context\<close> is a child of the server's measure context and shares
  the nodes of its tree, so it is a reference into that tree. \<open>closing\<close> says whether the
  optional promise is set. A JavaScript \<open>Map\<close> is an association list in insertion
  order.
\<close>

record workspace =
  ws_context :: ref
  ws_id :: string
  ws_sessions :: "(string \<times> session \<times> connection_socket) list"
  upgrade :: bool
  backup :: bool
  closing :: bool
  softShutdown :: nat
  workspaceId :: workspace_id
  workspaceName :: string

record session_manager =
  workspaces :: "(string \<times> workspace) list"
  sessions :: "(string \<times> session \<times> connection_socket) list"

section \<open>\<open>getStatistics\<close> (\<open>stats.ts\<close>)\<close>

record session_statistics =
  st_userId :: string
  st_data :: jsvalue
  st_mins5 :: statistics_element
  st_total :: statistics_element
  st_current :: statistics_element
  st_upgrade :: bool

record workspace_statistics =
  st_sessions :: "session_statistics list"
  st_name :: string
  st_wsId :: string
  st_sessionsTotal :: nat
  st_upgrading :: bool
  st_closing :: bool

text \<open>
  The object that \<open>getStatistics\<close> returns. \<open>'a\<close> is what \<open>metricsAggregate\<close> returns and
  \<open>'g\<close> the five gauges read from \<open>process\<close> and \<open>os\<close> (rounded floating-point
  numbers, which the model does not look into).
\<close>

record ('a, 'g) statistics =
  st_metrics :: 'a
  activeSessions :: "string \<rightharpoonup> workspace_statistics"
  totalClients :: nat
  gauges :: 'g

definition session_entry :: "string \<times> session \<times> connection_socket \<Rightarrow> session_statistics" where
  "session_entry e =
     (case e of (k, v, socket) \<Rightarrow>
        \<lparr>st_userId = user v, st_data = cs_data socket, st_mins5 = mins5 v, st_total = total v,
         st_current = current v, st_upgrade = upgradeClient v\<rparr>)"

definition workspace_entry :: "(workspace_id \<Rightarrow> string) \<Rightarrow> workspace \<Rightarrow> workspace_statistics" where
  "workspace_entry toWorkspaceString vv =
     \<lparr>st_sessions = map session_entry (ws_sessions vv),
      st_name = workspaceName vv,
      st_wsId = toWorkspaceString (workspaceId vv),
      st_sessionsTotal = length (ws_sessions vv),
      st_upgrading = upgrade vv,
      st_closing = closing vv\<rparr>"

text \<open>\<open>(ctx as any).metrics\<close>\<close>

fun ctx_metrics :: "measure_context \<Rightarrow> metrics option" where
  "ctx_metrics (MeasureMetricsContext m) = Some m"
| "ctx_metrics OtherMeasureContext = None"

text \<open>
  \<open>getStatistics(ctx, sessions, admin)\<close>. \<open>metricsAggregate\<close> and \<open>toWorkspaceString\<close>
  are the functions of \<open>@hcengineering/core\<close>, \<open>g\<close> the gauges of the moment. The loop
  \<^verbatim>\<open>for (const [k, vv] of sessions.workspaces) data.statistics.activeSessions[k] = ...\<close>
  is a fold over the map.
\<close>

definition getStatistics ::
  "(metrics option \<Rightarrow> 'a) \<Rightarrow> (workspace_id \<Rightarrow> string) \<Rightarrow> 'g \<Rightarrow>
   measure_context \<Rightarrow> session_manager \<Rightarrow> bool \<Rightarrow> ('a, 'g) statistics" where
  "getStatistics metricsAggregate toWorkspaceString g ctx sm admin =
     \<lparr>st_metrics = metricsAggregate (ctx_metrics ctx),
      activeSessions =
        (if admin
         then fold (\<lambda>(k, vv) a. a(k \<mapsto> workspace_entry toWorkspaceString vv)) (workspaces sm) Map.empty
         else Map.empty),
      totalClients = length (sessions sm),
      gauges = g\<rparr>"

section \<open>The control endpoints (\<open>server_http.ts\<close>)\<close>

text \<open>
  The query of a request, as Express parses it, and the response written with
  \<open>res.writeHead\<close> and \<open>res.end\<close>.
\<close>

type_synonym query = "string \<rightharpoonup> string"

record 'b http_response =
  status_code :: nat
  headers :: "(string \<times> string) list"
  body :: "'b option"

text \<open>
  \<open>decodeToken(req.query.token as string)\<close>. Without the parameter the argument is
  \<open>undefined\<close>, and the decoder throws as it does for a token that it cannot decode.
\<close>

definition decode_query :: "(string \<Rightarrow> token option) \<Rightarrow> query \<Rightarrow> token option" where
  "decode_query decodeToken q = (case q ''token'' of None \<Rightarrow> None | Some t \<Rightarrow> decodeToken t)"

text \<open>
  The body of the statistics response: the fields of \<open>getStatistics\<close> and \<open>admin\<close>. The
  property \<open>users\<close> of the source holds the function \<open>getUsers\<close> itself, not its result,
  and \<open>JSON.stringify\<close> leaves a function out.
\<close>

record ('a, 'g) statistics_body =
  stats :: "('a, 'g) statistics"
  admin :: bool

definition api_statistics ::
  "(string \<Rightarrow> token option) \<Rightarrow> (metrics option \<Rightarrow> 'a) \<Rightarrow> (workspace_id \<Rightarrow> string) \<Rightarrow> 'g \<Rightarrow>
   measure_context \<Rightarrow> session_manager \<Rightarrow> query \<Rightarrow> ('a, 'g) statistics_body http_response" where
  "api_statistics decodeToken metricsAggregate toWorkspaceString g ctx sm q =
     (case decode_query decodeToken q of
        None \<Rightarrow> \<lparr>status_code = 404, headers = [], body = None\<rparr>
      | Some payload \<Rightarrow>
          let adm = (extra_field payload ''admin'' = JStr ''true'') in
          \<lparr>status_code = 200,
           headers = [(''Content-Type'', ''application/json'')],
           body = Some \<lparr>stats = getStatistics metricsAggregate toWorkspaceString g ctx sm adm,
                        admin = adm\<rparr>\<rparr>)"

text \<open>
  The values of a parsed query. For a parameter that occurs once Express gives a
  string, for a repeated parameter an array and for a bracketed one an object. A
  JavaScript string is a list of UTF-16 code units; \<open>js\<close> embeds a HOL string, each
  character as the code unit of the same number.
\<close>

type_synonym jsstring = "nat list"

definition js :: "string \<Rightarrow> jsstring" where
  "js s = map of_char s"

datatype qvalue = QString jsstring | QArray "qvalue list" | QObject "(jsstring \<times> qvalue) list"

text \<open>
  \<open>ToString\<close> of ECMAScript on these values: an array is its elements joined by
  commas, an object is \<open>[object Object]\<close>.
\<close>

fun join :: "jsstring list \<Rightarrow> jsstring" where
  "join [] = []"
| "join [x] = x"
| "join (x # y # ys) = x @ js '','' @ join (y # ys)"

fun ToString :: "qvalue \<Rightarrow> jsstring" where
  "ToString (QString s) = s"
| "ToString (QArray vs) = join (map ToString vs)"
| "ToString (QObject fs) = js ''[object Object]''"

text \<open>
  The numbers that \<open>parseInt\<close> returns: \<open>NaN\<close>, a double whose value is an integer,
  \<open>-0\<close> and the two infinities.
\<close>

datatype jsnumber = NaN | Number int | NegativeZero | PosInfinity | NegInfinity

text \<open>
  The code units that \<open>parseInt\<close> skips at the start (\<open>StrWhiteSpaceChar\<close>): the white
  space and line terminators of ECMAScript, with the space separators of Unicode.
\<close>

definition white_space :: "nat \<Rightarrow> bool" where
  "white_space c \<longleftrightarrow>
     c \<in> {0x9, 0xA, 0xB, 0xC, 0xD, 0x20, 0xA0, 0x1680, 0x2028, 0x2029, 0x202F, 0x205F, 0x3000, 0xFEFF} \<or>
     (0x2000 \<le> c \<and> c \<le> 0x200A)"

text \<open>The value of a digit \<open>0-9\<close>, \<open>a-z\<close>, \<open>A-Z\<close>; 36 for any other code unit.\<close>

definition digit_value :: "nat \<Rightarrow> nat" where
  "digit_value c =
     (if 48 \<le> c \<and> c \<le> 57 then c - 48
      else if 97 \<le> c \<and> c \<le> 122 then c - 87
      else if 65 \<le> c \<and> c \<le> 90 then c - 55
      else 36)"

text \<open>
  The double nearest to a natural number (53 bits of significand, ties to the even
  significand); \<open>None\<close> when it is beyond the largest double, which gives an infinity.
\<close>

fun bit_length :: "nat \<Rightarrow> nat" where
  "bit_length n = (if n = 0 then 0 else Suc (bit_length (n div 2)))"

declare bit_length.simps [simp del]

definition to_double :: "nat \<Rightarrow> nat option" where
  "to_double n =
     (if n < 2 ^ 53 then Some n
      else
        let e = bit_length n - 53;
            q = n div 2 ^ e;
            r = n mod 2 ^ e;
            q' = (if 2 * r > 2 ^ e \<or> (2 * r = 2 ^ e \<and> odd q) then q + 1 else q);
            d = q' * 2 ^ e
        in if d < 2 ^ 1024 then Some d else None)"

text \<open>
  \<open>parseInt(string)\<close> of ECMAScript without a radix: the argument is converted with
  \<open>ToString\<close>, leading white space is skipped, a sign is read, the prefix \<open>0x\<close>
  selects radix 16, and the longest run of digits is the number, converted to a double;
  without a digit the result is \<open>NaN\<close>. (Beyond 20 significant decimal digits
  ECMAScript lets an implementation read the later digits as zeros; the model rounds the
  exact number, as V8 does.)
\<close>

definition parseInt :: "qvalue \<Rightarrow> jsnumber" where
  "parseInt string =
     (let inputString = ToString string;
          S = dropWhile white_space inputString;
          negative = (take 1 S = js ''-'');
          S1 = (if take 1 S = js ''+'' \<or> take 1 S = js ''-'' then drop 1 S else S);
          hex = (take 2 S1 = js ''0x'' \<or> take 2 S1 = js ''0X'');
          R = (if hex then 16 else 10);
          S2 = (if hex then drop 2 S1 else S1);
          Z = takeWhile (\<lambda>c. digit_value c < R) S2;
          mathInt = foldl (\<lambda>acc c. acc * R + digit_value c) 0 Z
      in if Z = [] then NaN
         else if mathInt = 0 then (if negative then NegativeZero else Number 0)
         else (case to_double mathInt of
                 None \<Rightarrow> if negative then NegInfinity else PosInfinity
               | Some d \<Rightarrow> Number (if negative then - int d else int d)))"



text \<open>
  The calls that the front-end makes on the \<open>SessionManager\<close>, whose implementation is
  behind the interface of \<open>types.ts\<close>: they are recorded in the order they are made.
  \<open>scheduleMaintenance\<close> gets the result of \<open>parseInt\<close>, \<open>forceClose\<close> the value of
  the query parameter \<open>wsId\<close>, which may be missing, and \<open>addSession\<close> the socket id, the decoded
  token, the raw token and the optional session id.
\<close>

datatype manager_call =
    ScheduleMaintenance jsnumber
  | ForceClose "qvalue option"
  | AddSession token string "string option"

text \<open>
  The state that the handlers of \<open>startHttpServer\<close> close over: the measure context,
  the session manager with its registries, and the calls made on the manager so far.
\<close>

record server =
  ctx :: measure_context
  manager :: session_manager
  calls :: "manager_call list"

text \<open>A request is answered, or the process ends with an exit code.\<close>

datatype manage_outcome = Responded "unit http_response" | Exited int

definition not_found :: "unit http_response" where
  "not_found = \<lparr>status_code = 404, headers = [], body = None\<rparr>"

definition ok :: "unit http_response" where
  "ok = \<lparr>status_code = 200, headers = [], body = None\<rparr>"

text \<open>\<open>app.put('/api/v1/manage', ...)\<close>\<close>

definition api_manage ::
  "(string \<Rightarrow> token option) \<Rightarrow> query \<Rightarrow> server \<Rightarrow> manage_outcome \<times> server" where
  "api_manage decodeToken q s =
     (case decode_query decodeToken q of
        None \<Rightarrow> (Responded not_found, s)
      | Some payload \<Rightarrow>
          if extra_field payload ''admin'' \<noteq> JStr ''true'' then (Responded not_found, s)
          else
            let operation = q ''operation'' in
            if operation = Some ''maintenance'' then
              let timeMinutes =
                    parseInt (QString (js (case q ''timeout'' of None \<Rightarrow> ''5'' | Some t \<Rightarrow> t))) in
              (Responded ok, s\<lparr>calls := calls s @ [ScheduleMaintenance timeMinutes]\<rparr>)
            else if operation = Some ''wipe-statistics'' then
              (Responded ok, s\<lparr>ctx := wipeStatistics (ctx s)\<rparr>)
            else if operation = Some ''force-close'' then
              (Responded ok,
               s\<lparr>calls := calls s @ [ForceClose (map_option (\<lambda>t. QString (js t)) (q ''wsId''))]\<rparr>)
            else if operation = Some ''reboot'' then (Exited 0, s)
            else (Responded not_found, s))"

text \<open>
  \<open>api_manage\<close> reads a query in which every parameter occurs once, as a string.
  \<open>api_manage_qs\<close> is the same handler on the query as the parser of Express gives it,
  where a value may be an array or an object as well. \<open>decodeToken\<close> gets the value of
  \<open>req.query.token\<close> as it is, also when it is missing or not a string; the \<open>switch\<close>
  compares \<open>req.query.operation\<close> with string literals by strict equality; \<open>parseInt\<close>
  converts its argument with \<open>ToString\<close>; \<open>forceClose\<close> gets \<open>req.query.wsId\<close> as it
  is.
\<close>

definition api_manage_qs ::
  "(qvalue option \<Rightarrow> token option) \<Rightarrow> (string \<rightharpoonup> qvalue) \<Rightarrow> server \<Rightarrow> manage_outcome \<times> server" where
  "api_manage_qs decodeToken q s =
     (case decodeToken (q ''token'') of
        None \<Rightarrow> (Responded not_found, s)
      | Some payload \<Rightarrow>
          if extra_field payload ''admin'' \<noteq> JStr ''true'' then (Responded not_found, s)
          else
            let operation = q ''operation'' in
            if operation = Some (QString (js ''maintenance'')) then
              let timeMinutes =
                    parseInt (case q ''timeout'' of None \<Rightarrow> QString (js ''5'') | Some v \<Rightarrow> v) in
              (Responded ok, s\<lparr>calls := calls s @ [ScheduleMaintenance timeMinutes]\<rparr>)
            else if operation = Some (QString (js ''wipe-statistics'')) then
              (Responded ok, s\<lparr>ctx := wipeStatistics (ctx s)\<rparr>)
            else if operation = Some (QString (js ''force-close'')) then
              (Responded ok, s\<lparr>calls := calls s @ [ForceClose (q ''wsId'')]\<rparr>)
            else if operation = Some (QString (js ''reboot'')) then (Exited 0, s)
            else (Responded not_found, s))"

section \<open>The connection upgrade and \<open>handleConnection\<close>\<close>

text \<open>
  The upgrade request after \<open>new URL\<close> has parsed it: the path, which holds the token
  after its first character, and the query parameter \<open>sessionId\<close>.
\<close>

record upgrade_request =
  pathname :: string
  sessionId_param :: "string option"

text \<open>
  The \<open>try\<close> block of the upgrade handler: the decoded token, the raw token and the
  session id with which \<open>handleConnection\<close> is called, or \<open>None\<close> when \<open>decodeToken\<close>
  throws or the product of the token is not the configured one
  (\<open>throw new Error('Invalid workspace product')\<close>).
\<close>

definition authorize ::
  "(string \<Rightarrow> token option) \<Rightarrow> string \<Rightarrow> upgrade_request \<Rightarrow> (token \<times> string \<times> string option) option" where
  "authorize decodeToken product req =
     (let raw = drop 1 (pathname req) in
      case decodeToken raw of
        None \<Rightarrow> None
      | Some payload \<Rightarrow>
          if productId (workspace payload) \<noteq> product then None
          else Some (payload, raw, sessionId_param req))"

text \<open>
  A connection as the upgrade handler leaves it: whether \<open>wss.handleUpgrade\<close> completed
  the handshake, the frames given to \<open>ws.send\<close>, whether the handler that answers every
  message with \<open>UNAUTHORIZED\<close> is installed as \<open>ws.onmessage\<close>, and whether the server
  called \<open>ws.close\<close> (the upgrade handler never does).
\<close>

record connection =
  handshake :: bool
  wire :: "frame list"
  unauthorized_handler :: bool
  ws_closed :: bool

definition hello_unauthorized :: response where
  "hello_unauthorized =
     \<lparr>resp_id = Some (- 1), resp_result = Some (JStr ''hello''), resp_error = Some UNAUTHORIZED\<rparr>"

definition reply_unauthorized :: response where
  "reply_unauthorized = \<lparr>resp_id = None, resp_result = None, resp_error = Some UNAUTHORIZED\<rparr>"

text \<open>\<open>ws.send(serialize(resp, false), { binary: false })\<close>\<close>

definition text_frame :: "(response \<Rightarrow> bool \<Rightarrow> string) \<Rightarrow> response \<Rightarrow> frame" where
  "text_frame serialize resp = \<lparr>data = serialize resp False, binary = False, compress = None\<rparr>"

text \<open>\<open>httpServer.on('upgrade', ...)\<close>\<close>

definition on_upgrade ::
  "(string \<Rightarrow> token option) \<Rightarrow> (response \<Rightarrow> bool \<Rightarrow> string) \<Rightarrow> string \<Rightarrow> upgrade_request \<Rightarrow>
   server \<Rightarrow> connection \<times> server" where
  "on_upgrade decodeToken serialize product req s =
     (case authorize decodeToken product req of
        Some (payload, raw, sid) \<Rightarrow>
          (\<lparr>handshake = True, wire = [], unauthorized_handler = False, ws_closed = False\<rparr>,
           s\<lparr>calls := calls s @ [AddSession payload raw sid]\<rparr>)
      | None \<Rightarrow>
          (\<lparr>handshake = True, wire = [text_frame serialize hello_unauthorized],
            unauthorized_handler = True, ws_closed = False\<rparr>,
           s))"

text \<open>
  The handler that the unauthorized path installs as \<open>ws.onmessage\<close>: every message
  of the client is answered with one more frame. (The handlers that \<open>handleConnection\<close>
  installs for an authorized connection go through \<open>doSessionOp\<close> and \<open>processRequest\<close>
  of \<open>utils\<close> and are not part of this model.) \<open>onmessages_unauthorized n\<close> is the
  connection after \<open>n\<close> messages.
\<close>

definition onmessage_unauthorized :: "(response \<Rightarrow> bool \<Rightarrow> string) \<Rightarrow> connection \<Rightarrow> connection" where
  "onmessage_unauthorized serialize c =
     c\<lparr>wire := wire c @ [text_frame serialize reply_unauthorized]\<rparr>"

fun onmessages_unauthorized ::
  "(response \<Rightarrow> bool \<Rightarrow> string) \<Rightarrow> nat \<Rightarrow> connection \<Rightarrow> connection" where
  "onmessages_unauthorized serialize 0 c = c"
| "onmessages_unauthorized serialize (Suc n) c =
     onmessages_unauthorized serialize n (onmessage_unauthorized serialize c)"

text \<open>
  \<open>AddSessionResponse\<close>: an active session, \<open>{upgrade: true}\<close> with the field
  \<open>upgradeInfo\<close> that the front-end reads through a cast, or \<open>{error}\<close>.
\<close>

datatype add_session_response =
    AddSessionActive session string
  | Upgrade jsvalue
  | Error jsvalue

fun upgradeInfo :: "add_session_response \<Rightarrow> jsvalue" where
  "upgradeInfo (Upgrade info) = info"
| "upgradeInfo _ = JUndefined"

text \<open>\<open>{ id: -1, result: { state: 'upgrading', stats: (s as any).upgradeInfo } }\<close>\<close>

definition upgrading_response :: "add_session_response \<Rightarrow> response" where
  "upgrading_response s =
     \<lparr>resp_id = Some (- 1),
      resp_result = Some (JObj [(''state'', JStr ''upgrading''), (''stats'', upgradeInfo s)]),
      resp_error = None\<rparr>"

text \<open>
  The continuation of \<open>webSocketData.session\<close> in \<open>handleConnection\<close>: for
  \<open>{upgrade}\<close> and \<open>{error}\<close> one call of \<open>cs.send(ctx, ..., false, false)\<close>, and
  \<open>cs.close()\<close> once that promise resolves. The result holds the calls of \<open>cs.send\<close>
  with their arguments, the events of these calls, and whether \<open>cs.close()\<close> ran.
\<close>

record rejection =
  cs_sends :: "(response \<times> bool \<times> bool) list"
  cs_events :: "send_event list"
  cs_closed :: bool

definition session_resolved ::
  "(response \<Rightarrow> bool \<Rightarrow> string) \<Rightarrow> bool \<Rightarrow> transport \<Rightarrow> transport list \<Rightarrow> 'e option \<Rightarrow>
   add_session_response \<Rightarrow> rejection" where
  "session_resolved serialize closed w later write_err s =
     (case s of
        AddSessionActive sess wsid \<Rightarrow> \<lparr>cs_sends = [], cs_events = [], cs_closed = False\<rparr>
      | _ \<Rightarrow>
          (case send serialize closed w later write_err (upgrading_response s) False False of
             (outcome, events) \<Rightarrow>
               \<lparr>cs_sends = [(upgrading_response s, False, False)],
                cs_events = events,
                cs_closed = (case outcome of Resolved n \<Rightarrow> True | _ \<Rightarrow> False)\<rparr>))"

section \<open>Sample data\<close>

text \<open>
  A stand-in for \<open>serialize\<close>, used to run the model on examples: the textual form is
  longer than the binary one.
\<close>

definition serialize_sample :: "response \<Rightarrow> bool \<Rightarrow> string" where
  "serialize_sample msg b = (if b then ''B'' else ''{}'')"

text \<open>
  A stand-in for \<open>decodeToken\<close> with three tokens it can decode: of an administrator,
  of a plain user, and of a user of another product.
\<close>

definition decode_sample :: "string \<Rightarrow> token option" where
  "decode_sample t =
     (if t = ''admin-token'' then
        Some \<lparr>email = ''root@example.com'',
              workspace = \<lparr>ws_name = ''w1'', productId = ''platform''\<rparr>,
              extra = Some [(''admin'', JStr ''true'')]\<rparr>
      else if t = ''user-token'' then
        Some \<lparr>email = ''user@example.com'',
              workspace = \<lparr>ws_name = ''w1'', productId = ''platform''\<rparr>,
              extra = None\<rparr>
      else if t = ''foreign-token'' then
        Some \<lparr>email = ''user@example.com'',
              workspace = \<lparr>ws_name = ''w2'', productId = ''other''\<rparr>,
              extra = None\<rparr>
      else None)"

definition sample_session :: session where
  "sample_session =
     \<lparr>user = ''user@example.com'', sessionId = ''s1'', binaryMode = False,
      useCompression = False, useBroadcast = True,
      total = \<lparr>find_count = 7, tx_count = 2\<rparr>,
      current = \<lparr>find_count = 1, tx_count = 0\<rparr>,
      mins5 = \<lparr>find_count = 3, tx_count = 1\<rparr>,
      upgradeClient = False\<rparr>"

definition sample_socket :: connection_socket where
  "sample_socket = \<lparr>cs_id = ''c1'', isClosed = False, cs_data = JObj [(''email'', JStr ''user@example.com'')]\<rparr>"

definition sample_workspace :: workspace where
  "sample_workspace =
     \<lparr>ws_context = [InMeasurements 0], ws_id = ''i1'',
      ws_sessions = [(''s1'', sample_session, sample_socket)],
      upgrade = False, backup = False, closing = False, softShutdown = 0,
      workspaceId = \<lparr>ws_name = ''w1'', productId = ''platform''\<rparr>,
      workspaceName = ''Workspace one''\<rparr>"

definition sample_metrics :: metrics where
  "sample_metrics =
     Metrics 12 340 (Some (JNum 99)) []
       [(''method'', [(''findAll'', MetricsData 5 120 None), (''tx'', MetricsData 2 60 (Some JNull))])]
       [(''w1'', Metrics 4 80 None [] [] [(''send-data'', MetricsData 9 4096 None)])]"

definition sample_server :: server where
  "sample_server =
     \<lparr>ctx = MeasureMetricsContext sample_metrics,
      manager = \<lparr>workspaces = [(''w1@platform'', sample_workspace)],
                 sessions = [(''c1'', sample_session, sample_socket)]\<rparr>,
      calls = []\<rparr>"

definition sample_query :: "string \<Rightarrow> string \<Rightarrow> query" where
  "sample_query t operation = [''token'' \<mapsto> t, ''operation'' \<mapsto> operation]"



text \<open>A stand-in for \<open>metricsAggregate\<close> of \<open>@hcengineering/core\<close>.\<close>

definition metricsAggregate_sample :: "metrics option \<Rightarrow> int" where
  "metricsAggregate_sample m = (case m of None \<Rightarrow> 0 | Some x \<Rightarrow> operations x)"

text \<open>A stand-in for \<open>toWorkspaceString\<close> of \<open>@hcengineering/core\<close>.\<close>

definition toWorkspaceString_sample :: "workspace_id \<Rightarrow> string" where
  "toWorkspaceString_sample w = ws_name w @ ''@'' @ productId w"

section \<open>Backpressure in \<open>send\<close>\<close>

lemma wait_drained_None:
  "wait_drained w later = None \<longleftrightarrow>
     (\<forall>u \<in> set (w # later). bufferedAmount u > 128 \<and> readyState u = OPEN)"
  by (induction w later rule: wait_drained.induct) auto

lemma wait_drained_Some:
  "wait_drained w later = Some (n, u) \<Longrightarrow>
     n \<le> length later \<and> u = (w # later) ! n \<and>
     (\<forall>i<n. bufferedAmount ((w # later) ! i) > 128 \<and> readyState ((w # later) ! i) = OPEN) \<and>
     \<not> (bufferedAmount u > 128 \<and> readyState u = OPEN)"
proof (induction w later arbitrary: n u rule: wait_drained.induct)
  case (1 w)
  then show ?case by (auto split: if_splits)
next
  case (2 w w' later)
  show ?case
  proof (cases "bufferedAmount w > 128 \<and> readyState w = OPEN")
    case True
    with 2(2) obtain m where m: "wait_drained w' later = Some (m, u)" "n = Suc m"
      by (auto split: if_splits)
    from 2(1)[OF True m(1)] True m(2) show ?thesis
      by (auto simp: less_Suc_eq_0_disj)
  next
    case False
    with 2(2) show ?thesis by auto
  qed
qed

lemma written_yields: "written (replicate k Yield) = []"
  by (induction k) auto

text \<open>
  C1. A call of \<open>send\<close> on an open transport does not complete, and writes nothing, as
  long as every state of the transport that the loop sees holds more than 128 buffered
  bytes and is open. When the call completes, the write was made at the first state
  that is not above 128 bytes or not open: after exactly \<open>n\<close> yields, where the \<open>n\<close>
  states before were all above 128 bytes and open. (A buffer of exactly 128 bytes lets
  the call proceed.)
\<close>

theorem send_backpressure:
  assumes "readyState w = OPEN"
  shows "((\<forall>u \<in> set (w # later). bufferedAmount u > 128 \<and> readyState u = OPEN) \<longrightarrow>
            fst (send serialize closed w later write_err msg b c) = Pending \<and>
            written (snd (send serialize closed w later write_err msg b c)) = []) \<and>
         (fst (send serialize closed w later write_err msg b c) \<noteq> Pending \<longrightarrow>
            (\<exists>n \<le> length later.
               (\<forall>i<n. bufferedAmount ((w # later) ! i) > 128 \<and> readyState ((w # later) ! i) = OPEN) \<and>
               (bufferedAmount ((w # later) ! n) \<le> 128 \<or> readyState ((w # later) ! n) \<noteq> OPEN) \<and>
               snd (send serialize closed w later write_err msg b c) =
                 Serialize msg b # replicate n Yield @
                 [Measure ''send-data'' (length (serialize msg b)),
                  WsSend \<lparr>data = serialize msg b, binary = True, compress = Some c\<rparr>]))"
proof (intro conjI impI)
  assume "\<forall>u \<in> set (w # later). bufferedAmount u > 128 \<and> readyState u = OPEN"
  then have n: "wait_drained w later = None" by (simp only: wait_drained_None)
  show "fst (send serialize closed w later write_err msg b c) = Pending"
    using assms n by (simp add: send_def)
  show "written (snd (send serialize closed w later write_err msg b c)) = []"
    using assms n by (simp add: send_def written_yields)
next
  assume "fst (send serialize closed w later write_err msg b c) \<noteq> Pending"
  with assms obtain n u where s: "wait_drained w later = Some (n, u)"
    by (cases "wait_drained w later") (auto simp: send_def)
  from wait_drained_Some[OF s] assms s
  show "\<exists>n \<le> length later.
          (\<forall>i<n. bufferedAmount ((w # later) ! i) > 128 \<and> readyState ((w # later) ! i) = OPEN) \<and>
          (bufferedAmount ((w # later) ! n) \<le> 128 \<or> readyState ((w # later) ! n) \<noteq> OPEN) \<and>
          snd (send serialize closed w later write_err msg b c) =
            Serialize msg b # replicate n Yield @
            [Measure ''send-data'' (length (serialize msg b)),
             WsSend \<lparr>data = serialize msg b, binary = True, compress = Some c\<rparr>]"
    by (intro exI[of _ n]) (auto simp: send_def Let_def)
qed

theorem send_backpressure_witness:
  "fst (send serialize_sample False \<lparr>readyState = OPEN, bufferedAmount = 200\<rparr>
          [\<lparr>readyState = OPEN, bufferedAmount = 129\<rparr>] (None :: string option)
          \<lparr>resp_id = Some 1, resp_result = None, resp_error = None\<rparr> False False) = Pending \<and>
   fst (send serialize_sample False \<lparr>readyState = OPEN, bufferedAmount = 200\<rparr>
          [\<lparr>readyState = OPEN, bufferedAmount = 129\<rparr>, \<lparr>readyState = OPEN, bufferedAmount = 128\<rparr>]
          (None :: string option)
          \<lparr>resp_id = Some 1, resp_result = None, resp_error = None\<rparr> False False) = Resolved 2"
  using send_backpressure [of "\<lparr>readyState = OPEN, bufferedAmount = 200\<rparr>"
      "[\<lparr>readyState = OPEN, bufferedAmount = 129\<rparr>]" serialize_sample False "None :: string option"
      "\<lparr>resp_id = Some 1, resp_result = None, resp_error = None\<rparr>" False False]
  by (simp add: send_def serialize_sample_def)

section \<open>The early return of \<open>send\<close>\<close>

lemma send_early_return:
  "readyState w \<noteq> OPEN \<Longrightarrow> \<not> closed \<Longrightarrow>
     send serialize closed w later write_err msg b c = (Resolved 0, [])"
  by (simp add: send_def)

lemma send_on_closed_socket:
  "readyState w \<noteq> OPEN \<Longrightarrow> closed \<Longrightarrow>
     send serialize closed w later write_err msg b c =
       (case write_err of Some e \<Rightarrow> Rejected e | None \<Rightarrow> Resolved (length (serialize msg b)),
        [Serialize msg b, Measure ''send-data'' (length (serialize msg b)),
         WsSend \<lparr>data = serialize msg b, binary = True, compress = Some c\<rparr>])"
  by (cases later) (simp_all add: send_def Let_def)

text \<open>
  C2. The specification wants \<open>send\<close> to return 0 at once, with no serialization, no
  metric and no write, when the transport is not open and the socket is marked closed.
  The guard of the source is \<open>ws.readyState !== ws.OPEN && !cs.isClosed\<close>: it returns 0
  only for a socket that is not marked closed (\<open>send_early_return\<close>). On a socket
  that \<open>cs.close()\<close> has marked closed, with the transport in state \<open>CLOSED\<close>, the
  call serializes the message, records \<open>send-data\<close> and hands the frame to \<open>ws.send\<close>
  (\<open>send_on_closed_socket\<close>); the error that the transport reports rejects the promise.
\<close>

theorem send_after_close_writes:
  "send serialize_sample True \<lparr>readyState = CLOSED, bufferedAmount = 0\<rparr> []
        (Some ''WebSocket is not open'')
        \<lparr>resp_id = Some 1, resp_result = None, resp_error = None\<rparr> False False =
     (Rejected ''WebSocket is not open'',
      [Serialize \<lparr>resp_id = Some 1, resp_result = None, resp_error = None\<rparr> False,
       Measure ''send-data'' 2,
       WsSend \<lparr>data = ''{}'', binary = True, compress = Some False\<rparr>])"
  by (simp add: send_def serialize_sample_def)

section \<open>Framing in \<open>send\<close>\<close>

lemma written_append: "written (xs @ ys) = written xs @ written ys"
  by (induction xs rule: written.induct) auto

lemma written_send:
  "written (snd (send serialize closed w later write_err msg b c)) =
     (if (readyState w \<noteq> OPEN \<and> \<not> closed) \<or> wait_drained w later = None then []
      else [\<lparr>data = serialize msg b, binary = True, compress = Some c\<rparr>])"
  by (auto simp: send_def Let_def written_yields written_append split: option.splits)

text \<open>
  A message sent with \<open>binary = false\<close> is serialized in the textual form and still
  written with the option \<open>binary: true\<close>.
\<close>

theorem send_textual_in_binary_frame:
  "map binary (written (snd (send serialize_sample False \<lparr>readyState = OPEN, bufferedAmount = 0\<rparr> []
        (None :: string option)
        \<lparr>resp_id = Some 1, resp_result = None, resp_error = None\<rparr> False False))) = [True]"
  by (simp add: send_def serialize_sample_def)

text \<open>
  C7, as amended. Every call of \<open>send\<close> that reaches the write hands exactly one frame
  to the transport, with the option \<open>binary: true\<close> whatever the argument \<open>binary\<close>
  is; the argument selects the serialization only, and the argument \<open>compression\<close> is
  passed on as the option \<open>compress\<close>.
\<close>

theorem send_frame_always_binary:
  "written (snd (send serialize closed w later write_err msg b c)) \<noteq> [] \<longrightarrow>
     written (snd (send serialize closed w later write_err msg b c)) =
       [\<lparr>data = serialize msg b, binary = True, compress = Some c\<rparr>]"
  by (simp add: written_send)

theorem send_frame_always_binary_witness:
  "written (snd (send serialize_sample False \<lparr>readyState = OPEN, bufferedAmount = 0\<rparr> []
        (None :: string option) \<lparr>resp_id = Some 1, resp_result = None, resp_error = None\<rparr> False True)) =
     [\<lparr>data = ''{}'', binary = True, compress = Some True\<rparr>] \<and>
   written (snd (send serialize_sample False \<lparr>readyState = OPEN, bufferedAmount = 0\<rparr> []
        (None :: string option) \<lparr>resp_id = Some 1, resp_result = None, resp_error = None\<rparr> True True)) =
     [\<lparr>data = ''B'', binary = True, compress = Some True\<rparr>]"
  using send_frame_always_binary [of serialize_sample False "\<lparr>readyState = OPEN, bufferedAmount = 0\<rparr>" "[]"
      "None :: string option" "\<lparr>resp_id = Some 1, resp_result = None, resp_error = None\<rparr>" False True]
    send_frame_always_binary [of serialize_sample False "\<lparr>readyState = OPEN, bufferedAmount = 0\<rparr>" "[]"
      "None :: string option" "\<lparr>resp_id = Some 1, resp_result = None, resp_error = None\<rparr>" True True]
  by (simp add: send_def serialize_sample_def)

section \<open>Rejected sessions in \<open>handleConnection\<close>\<close>

text \<open>
  When the write fails, \<open>cs.close()\<close> does not run: it is chained with \<open>then\<close> on the
  fulfilment of \<open>cs.send\<close> only. When the client is gone (transport \<open>CLOSED\<close>, socket
  not marked closed) \<open>cs.send\<close> returns 0 and no response is sent.
\<close>

theorem rejected_session_not_closed_on_write_error:
  "\<not> cs_closed (session_resolved serialize_sample False \<lparr>readyState = OPEN, bufferedAmount = 0\<rparr> []
        (Some ''write failed'') (Error (JStr ''pipeline failed''))) \<and>
   written (cs_events (session_resolved serialize_sample False \<lparr>readyState = CLOSED, bufferedAmount = 0\<rparr> []
        (None :: string option) (Upgrade JUndefined))) = []"
  by (simp add: session_resolved_def send_def Let_def)

text \<open>
  C9, as amended. When \<open>addSession\<close> resolves to \<open>{upgrade: true}\<close> or to \<open>{error}\<close>, the
  front-end calls \<open>cs.send\<close> exactly once, with the response \<open>id = -1\<close>,
  \<open>result.state = 'upgrading'\<close> and \<open>result.stats = upgradeInfo\<close>, in textual form and
  without compression, and calls \<open>cs.close()\<close> exactly when that promise is fulfilled; at
  most this one frame reaches the transport. On a transport that is open, drains and
  accepts the write, exactly this frame is written and the socket is closed after it.
  When the transport is not open and the socket not marked closed, nothing is written
  and the socket is closed; when the write fails, or the buffer never drains, the socket
  is not closed. An \<open>{error}\<close> is handled exactly as an \<open>{upgrade: true}\<close> without
  \<open>upgradeInfo\<close>.
\<close>

theorem rejected_session_gets_upgrading:
  assumes "s = Upgrade info \<or> s = Error e"
  shows "cs_sends (session_resolved serialize closed w later write_err s) =
           [(\<lparr>resp_id = Some (- 1),
              resp_result = Some (JObj [(''state'', JStr ''upgrading''), (''stats'', upgradeInfo s)]),
              resp_error = None\<rparr>, False, False)] \<and>
         (readyState w = OPEN \<and> wait_drained w later \<noteq> None \<and> write_err = None \<longrightarrow>
            written (cs_events (session_resolved serialize closed w later write_err s)) =
              [\<lparr>data = serialize (upgrading_response s) False, binary = True, compress = Some False\<rparr>] \<and>
            cs_closed (session_resolved serialize closed w later write_err s)) \<and>
         session_resolved serialize closed w later write_err (Error e) =
           session_resolved serialize closed w later write_err (Upgrade JUndefined) \<and>
         (written (cs_events (session_resolved serialize closed w later write_err s)) = [] \<or>
          written (cs_events (session_resolved serialize closed w later write_err s)) =
            [\<lparr>data = serialize (upgrading_response s) False, binary = True, compress = Some False\<rparr>]) \<and>
         (cs_closed (session_resolved serialize closed w later write_err s) \<longleftrightarrow>
            (\<exists>n. fst (send serialize closed w later write_err (upgrading_response s) False False) =
                   Resolved n)) \<and>
         (readyState w \<noteq> OPEN \<and> \<not> closed \<longrightarrow>
            written (cs_events (session_resolved serialize closed w later write_err s)) = [] \<and>
            cs_closed (session_resolved serialize closed w later write_err s)) \<and>
         ((readyState w = OPEN \<or> closed) \<and> write_err \<noteq> None \<longrightarrow>
            \<not> cs_closed (session_resolved serialize closed w later write_err s)) \<and>
         (wait_drained w later = None \<longrightarrow>
            written (cs_events (session_resolved serialize closed w later write_err s)) = [] \<and>
            \<not> cs_closed (session_resolved serialize closed w later write_err s))"
proof -
  let ?r = "session_resolved serialize closed w later write_err s"
  let ?send = "send serialize closed w later write_err (upgrading_response s) False False"
  let ?frame = "\<lparr>data = serialize (upgrading_response s) False, binary = True, compress = Some False\<rparr>"
  have sends: "cs_sends ?r =
           [(\<lparr>resp_id = Some (- 1),
              resp_result = Some (JObj [(''state'', JStr ''upgrading''), (''stats'', upgradeInfo s)]),
              resp_error = None\<rparr>, False, False)]"
    using assms by (auto simp: session_resolved_def upgrading_response_def split: prod.splits)
  have ev: "cs_events ?r = snd ?send"
    using assms by (auto simp: session_resolved_def split: prod.splits)
  have cl: "cs_closed ?r \<longleftrightarrow> (\<exists>n. fst ?send = Resolved n)"
    using assms by (auto simp: session_resolved_def split: prod.splits send_outcome.splits)
  have wr: "written (cs_events ?r) =
              (if (readyState w \<noteq> OPEN \<and> \<not> closed) \<or> wait_drained w later = None then []
               else [?frame])"
    unfolding ev by (rule written_send)
  have healthy: "written (cs_events ?r) = [?frame] \<and> cs_closed ?r"
    if "readyState w = OPEN \<and> wait_drained w later \<noteq> None \<and> write_err = None"
  proof -
    from that have "\<exists>n. fst ?send = Resolved n" by (auto simp: send_def Let_def)
    then have "cs_closed ?r" by (simp only: cl)
    moreover have "written (cs_events ?r) = [?frame]" unfolding wr using that by auto
    ultimately show ?thesis by blast
  qed
  have same: "session_resolved serialize closed w later write_err (Error e) =
           session_resolved serialize closed w later write_err (Upgrade JUndefined)"
    by (simp add: session_resolved_def upgrading_response_def)
  have atmost: "written (cs_events ?r) = [] \<or> written (cs_events ?r) = [?frame]"
    by (simp add: wr)
  have gone: "written (cs_events ?r) = [] \<and> cs_closed ?r" if "readyState w \<noteq> OPEN \<and> \<not> closed"
    unfolding wr cl using that by (auto simp: send_def)
  have failed: "\<not> cs_closed ?r" if "(readyState w = OPEN \<or> closed) \<and> write_err \<noteq> None"
    unfolding cl using that by (auto simp: send_def Let_def split: option.splits)
  have stalled: "written (cs_events ?r) = [] \<and> \<not> cs_closed ?r" if "wait_drained w later = None"
  proof -
    from that have "readyState w = OPEN" by (cases later) (auto split: if_splits)
    with that show ?thesis unfolding wr cl by (auto simp: send_def)
  qed
  from sends healthy same atmost cl gone failed stalled show ?thesis by blast
qed

theorem rejected_session_gets_upgrading_witness:
  "cs_sends (session_resolved serialize_sample False \<lparr>readyState = OPEN, bufferedAmount = 0\<rparr> []
      (None :: string option) (Error (JStr ''pipeline failed''))) =
     [(\<lparr>resp_id = Some (- 1),
        resp_result = Some (JObj [(''state'', JStr ''upgrading''), (''stats'', JUndefined)]),
        resp_error = None\<rparr>, False, False)] \<and>
   written (cs_events (session_resolved serialize_sample False \<lparr>readyState = OPEN, bufferedAmount = 0\<rparr> []
      (None :: string option) (Error (JStr ''pipeline failed'')))) =
     [\<lparr>data = ''{}'', binary = True, compress = Some False\<rparr>] \<and>
   cs_closed (session_resolved serialize_sample False \<lparr>readyState = OPEN, bufferedAmount = 0\<rparr> []
      (None :: string option) (Error (JStr ''pipeline failed'')))"
proof -
  note r = rejected_session_gets_upgrading [of "Error (JStr ''pipeline failed'')" JUndefined
      "JStr ''pipeline failed''" serialize_sample False "\<lparr>readyState = OPEN, bufferedAmount = 0\<rparr>" "[]"
      "None :: string option"]
  from r [THEN conjunct1] r [THEN conjunct2, THEN conjunct1] show ?thesis
    by (simp add: serialize_sample_def)
qed

section \<open>The unauthorized path of the upgrade\<close>

lemma onmessages_unauthorized_wire:
  "onmessages_unauthorized serialize n c =
     c\<lparr>wire := wire c @ replicate n (text_frame serialize reply_unauthorized)\<rparr>"
  by (induction n arbitrary: c) (simp_all add: onmessage_unauthorized_def replicate_append_same)

text \<open>
  After an upgrade request with a token that does not decode and one message of the
  client, two \<open>UNAUTHORIZED\<close> frames have been sent and the server has not closed the
  socket.
\<close>

theorem bad_token_socket_stays_open:
  "onmessages_unauthorized serialize_sample 1
     (fst (on_upgrade decode_sample serialize_sample ''platform''
             \<lparr>pathname = ''/garbage'', sessionId_param = None\<rparr> sample_server)) =
   \<lparr>handshake = True,
    wire = [\<lparr>data = ''{}'', binary = False, compress = None\<rparr>,
            \<lparr>data = ''{}'', binary = False, compress = None\<rparr>],
    unauthorized_handler = True,
    ws_closed = False\<rparr>"
  by (simp add: on_upgrade_def authorize_def decode_sample_def onmessage_unauthorized_def text_frame_def
      serialize_sample_def)

text \<open>
  C3, as amended. For an upgrade request whose token does not decode the handshake is
  still completed, one \<open>UNAUTHORIZED\<close> frame (\<open>id = -1\<close>, \<open>result = 'hello'\<close>) is sent at
  once and one more for each message that the client sends afterwards; the server does
  not close the socket; the state of the server is unchanged, so \<open>addSession\<close> is not
  called and no workspace is created.
\<close>

theorem bad_token_unauthorized:
  assumes "decodeToken (drop 1 (pathname req)) = None"
  shows "on_upgrade decodeToken serialize product req s =
           (\<lparr>handshake = True, wire = [text_frame serialize hello_unauthorized],
             unauthorized_handler = True, ws_closed = False\<rparr>, s) \<and>
         onmessages_unauthorized serialize n (fst (on_upgrade decodeToken serialize product req s)) =
           \<lparr>handshake = True,
            wire = text_frame serialize hello_unauthorized #
                   replicate n (text_frame serialize reply_unauthorized),
            unauthorized_handler = True, ws_closed = False\<rparr> \<and>
         resp_error hello_unauthorized = Some UNAUTHORIZED \<and>
         resp_error reply_unauthorized = Some UNAUTHORIZED"
  using assms
  by (simp add: on_upgrade_def authorize_def onmessages_unauthorized_wire hello_unauthorized_def
      reply_unauthorized_def)

theorem bad_token_unauthorized_witness:
  "onmessages_unauthorized serialize_sample 2
     (fst (on_upgrade decode_sample serialize_sample ''platform''
             \<lparr>pathname = ''/garbage'', sessionId_param = None\<rparr> sample_server)) =
   \<lparr>handshake = True,
    wire = [\<lparr>data = ''{}'', binary = False, compress = None\<rparr>,
            \<lparr>data = ''{}'', binary = False, compress = None\<rparr>,
            \<lparr>data = ''{}'', binary = False, compress = None\<rparr>],
    unauthorized_handler = True,
    ws_closed = False\<rparr> \<and>
   snd (on_upgrade decode_sample serialize_sample ''platform''
             \<lparr>pathname = ''/garbage'', sessionId_param = None\<rparr> sample_server) = sample_server"
  using bad_token_unauthorized [of decode_sample "\<lparr>pathname = ''/garbage'', sessionId_param = None\<rparr>"
      serialize_sample "''platform''" sample_server 2]
  by (simp add: decode_sample_def text_frame_def serialize_sample_def numeral_2_eq_2 onmessage_unauthorized_def)

text \<open>
  C6. For an upgrade request whose token decodes to a workspace of another product than
  the configured one, the connection takes the unauthorized path: the client receives
  the \<open>UNAUTHORIZED\<close> response, \<open>addSession\<close> is not called (the calls on the manager
  are as before) and the registries of the manager are unchanged.
\<close>

theorem wrong_product_unauthorized:
  assumes "decodeToken (drop 1 (pathname req)) = Some t"
      and "productId (workspace t) \<noteq> product"
  shows "on_upgrade decodeToken serialize product req s =
           (\<lparr>handshake = True, wire = [text_frame serialize hello_unauthorized],
             unauthorized_handler = True, ws_closed = False\<rparr>, s) \<and>
         calls (snd (on_upgrade decodeToken serialize product req s)) = calls s \<and>
         manager (snd (on_upgrade decodeToken serialize product req s)) = manager s \<and>
         resp_error hello_unauthorized = Some UNAUTHORIZED"
  using assms
  by (simp add: on_upgrade_def authorize_def hello_unauthorized_def)

theorem wrong_product_unauthorized_witness:
  "on_upgrade decode_sample serialize_sample ''platform''
      \<lparr>pathname = ''/foreign-token'', sessionId_param = Some ''s1''\<rparr> sample_server =
     (\<lparr>handshake = True, wire = [\<lparr>data = ''{}'', binary = False, compress = None\<rparr>],
       unauthorized_handler = True, ws_closed = False\<rparr>, sample_server)"
  using wrong_product_unauthorized [of decode_sample
      "\<lparr>pathname = ''/foreign-token'', sessionId_param = Some ''s1''\<rparr>"
      "\<lparr>email = ''user@example.com'', workspace = \<lparr>ws_name = ''w2'', productId = ''other''\<rparr>, extra = None\<rparr>"
      "''platform''" serialize_sample sample_server]
  by (simp add: decode_sample_def text_frame_def serialize_sample_def)

section \<open>The endpoint \<open>PUT /api/v1/manage\<close>\<close>

text \<open>
  C4. A request whose token does not decode, or whose \<open>extra.admin\<close> is not the string
  \<open>'true'\<close>, is answered with 404 and leaves the state of the server as it is: no call
  of \<open>scheduleMaintenance\<close> or \<open>forceClose\<close>, no wipe of the statistics, no exit. An
  operation outside \<open>maintenance\<close>, \<open>wipe-statistics\<close>, \<open>force-close\<close> and \<open>reboot\<close>
  is answered with 404 as well. \<open>reboot\<close> with an administrator's token ends the process
  with exit code 0.
\<close>

theorem manage_guards:
  "((decode_query decodeToken q = None \<or>
     (\<exists>t. decode_query decodeToken q = Some t \<and> extra_field t ''admin'' \<noteq> JStr ''true'')) \<longrightarrow>
      api_manage decodeToken q s = (Responded \<lparr>status_code = 404, headers = [], body = None\<rparr>, s)) \<and>
   (q ''operation'' \<notin> {Some ''maintenance'', Some ''wipe-statistics'', Some ''force-close'', Some ''reboot''} \<longrightarrow>
      api_manage decodeToken q s = (Responded \<lparr>status_code = 404, headers = [], body = None\<rparr>, s)) \<and>
   ((\<exists>t. decode_query decodeToken q = Some t \<and> extra_field t ''admin'' = JStr ''true'') \<and>
    q ''operation'' = Some ''reboot'' \<longrightarrow>
      api_manage decodeToken q s = (Exited 0, s))"
  by (auto simp: api_manage_def not_found_def Let_def split: option.splits)

theorem manage_guards_witness:
  "api_manage decode_sample (sample_query ''user-token'' ''force-close'') sample_server =
     (Responded \<lparr>status_code = 404, headers = [], body = None\<rparr>, sample_server) \<and>
   api_manage decode_sample (sample_query ''admin-token'' ''shutdown'') sample_server =
     (Responded \<lparr>status_code = 404, headers = [], body = None\<rparr>, sample_server) \<and>
   api_manage decode_sample (sample_query ''admin-token'' ''reboot'') sample_server =
     (Exited 0, sample_server)"
  using manage_guards [of decode_sample "sample_query ''user-token'' ''force-close''" sample_server]
        manage_guards [of decode_sample "sample_query ''admin-token'' ''shutdown''" sample_server]
        manage_guards [of decode_sample "sample_query ''admin-token'' ''reboot''" sample_server]
  by (simp add: decode_query_def decode_sample_def sample_query_def extra_field_def)











text \<open>
  On a query whose parameters are strings the two forms of the handler agree.
\<close>

lemma js_eq_iff: "js a = js b \<longleftrightarrow> a = b"
proof -
  have "inj (of_char :: char \<Rightarrow> nat)" by (simp add: inj_on_def)
  then show ?thesis by (simp add: js_def inj_map_eq_map)
qed

lemma api_manage_qs_plain:
  assumes "D (map_option (\<lambda>t. QString (js t)) (q ''token'')) = decode_query dec q"
  shows "api_manage_qs D (\<lambda>k. map_option (\<lambda>t. QString (js t)) (q k)) s = api_manage dec q s"
proof (cases "decode_query dec q")
  case None
  with assms show ?thesis by (simp add: api_manage_qs_def api_manage_def)
next
  case (Some t)
  note d = assms[unfolded Some]
  show ?thesis
  proof (cases "q ''operation''")
    case None
    then show ?thesis
      by (simp add: api_manage_qs_def api_manage_def Let_def d Some)
  next
    case op: (Some x)
    show ?thesis
    proof (cases "q ''timeout''")
      case None
      then show ?thesis
        by (simp add: api_manage_qs_def api_manage_def Let_def d Some op js_eq_iff)
    next
      case (Some y)
      then show ?thesis
        by (simp add: api_manage_qs_def api_manage_def Let_def d \<open>decode_query dec q = Some t\<close> op js_eq_iff)
    qed
  qed
qed

text \<open>Some more values of \<open>parseInt\<close>.\<close>

lemma maintenance_timeout_examples:
  "parseInt (QString (js ''9007199254740993'')) = Number 9007199254740992"
  "parseInt (QString (0xA0 # js ''7'')) = Number 7"
  "parseInt (QArray [QString (js ''1''), QString (js ''2'')]) = Number 1"
  "parseInt (QString (js '' -15 minutes'')) = Number (- 15)"
  "parseInt (QString (js ''0x1F'')) = Number 31"
  "parseInt (QString (js ''-0'')) = NegativeZero"
proof -
  have bl: "bit_length 9007199254740993 = 54"
    by (simp add: bit_length.simps)
  show "parseInt (QString (js ''9007199254740993'')) = Number 9007199254740992"
    by (simp add: parseInt_def white_space_def digit_value_def Let_def js_def to_double_def bl)
  show "parseInt (QString (0xA0 # js ''7'')) = Number 7"
    by (simp add: parseInt_def white_space_def digit_value_def Let_def js_def to_double_def)
  show "parseInt (QArray [QString (js ''1''), QString (js ''2'')]) = Number 1"
    by (simp add: parseInt_def white_space_def digit_value_def Let_def js_def to_double_def)
  show "parseInt (QString (js '' -15 minutes'')) = Number (- 15)"
    by (simp add: parseInt_def white_space_def digit_value_def Let_def js_def to_double_def)
  show "parseInt (QString (js ''0x1F'')) = Number 31"
    by (simp add: parseInt_def white_space_def digit_value_def Let_def js_def to_double_def)
  show "parseInt (QString (js ''-0'')) = NegativeZero"
    by (simp add: parseInt_def white_space_def digit_value_def Let_def js_def to_double_def)
qed




section \<open>The endpoint \<open>GET /api/v1/statistics\<close>\<close>

lemma fold_upd_map_of:
  "distinct (map fst xs) \<Longrightarrow>
     fold (\<lambda>(k, v) a. a(k \<mapsto> f v)) xs m k =
       (case map_of xs k of None \<Rightarrow> m k | Some v \<Rightarrow> Some (f v))"
proof (induction xs arbitrary: m)
  case Nil
  then show ?case by simp
next
  case (Cons x xs)
  obtain k' v' where x: "x = (k', v')" by (cases x)
  from Cons.prems x have d: "distinct (map fst xs)" and nk: "k' \<notin> fst ` set xs" by auto
  from nk have "map_of xs k' = None" by (simp add: map_of_eq_None_iff)
  with Cons.IH[OF d, of "m(k' \<mapsto> f v')"] x show ?case
    by (auto split: option.splits)
qed

lemma activeSessions_getStatistics:
  "distinct (map fst (workspaces sm)) \<Longrightarrow>
     activeSessions (getStatistics agg tws g c sm a) k =
       (if a then map_option (workspace_entry tws) (map_of (workspaces sm) k) else None)"
  by (simp add: getStatistics_def fold_upd_map_of split: option.splits)

text \<open>
  C5. A token that does not decode gives 404 with no headers and no body. A token that
  decodes gives 200 with a body in which \<open>activeSessions\<close> has an entry for a key exactly
  when the token carries \<open>extra.admin = 'true'\<close> and the key is a workspace of the
  manager; the entry holds, for each session of the workspace, the user id, the data of
  the socket and the counters, and for the workspace its name, id, number of sessions
  and the flags \<open>upgrade\<close> and \<open>closing\<close>. The keys of the map \<open>workspaces\<close> are
  distinct, as in every JavaScript \<open>Map\<close>.
\<close>

theorem statistics_endpoint:
  assumes "distinct (map fst (workspaces sm))"
  shows "(decode_query decodeToken q = None \<longrightarrow>
            api_statistics decodeToken agg tws g c sm q =
              \<lparr>status_code = 404, headers = [], body = None\<rparr>) \<and>
         (\<forall>t. decode_query decodeToken q = Some t \<longrightarrow>
            (\<exists>b. api_statistics decodeToken agg tws g c sm q =
                    \<lparr>status_code = 200, headers = [(''Content-Type'', ''application/json'')],
                     body = Some b\<rparr> \<and>
                 admin b = (extra_field t ''admin'' = JStr ''true'') \<and>
                 totalClients (stats b) = length (sessions sm) \<and>
                 (\<forall>k. activeSessions (stats b) k \<noteq> None \<longleftrightarrow>
                        extra_field t ''admin'' = JStr ''true'' \<and> k \<in> fst ` set (workspaces sm)) \<and>
                 (\<forall>k vv. extra_field t ''admin'' = JStr ''true'' \<and> (k, vv) \<in> set (workspaces sm) \<longrightarrow>
                    activeSessions (stats b) k =
                      Some \<lparr>st_sessions =
                              map (\<lambda>(i, v, socket).
                                     \<lparr>st_userId = user v, st_data = cs_data socket, st_mins5 = mins5 v,
                                      st_total = total v, st_current = current v,
                                      st_upgrade = upgradeClient v\<rparr>) (ws_sessions vv),
                            st_name = workspaceName vv,
                            st_wsId = tws (workspaceId vv),
                            st_sessionsTotal = length (ws_sessions vv),
                            st_upgrading = upgrade vv,
                            st_closing = closing vv\<rparr>)))"
proof (intro conjI impI allI)
  assume "decode_query decodeToken q = None"
  then show "api_statistics decodeToken agg tws g c sm q = \<lparr>status_code = 404, headers = [], body = None\<rparr>"
    by (simp add: api_statistics_def)
next
  fix t assume t: "decode_query decodeToken q = Some t"
  let ?a = "extra_field t ''admin'' = JStr ''true''"
  let ?b = "\<lparr>stats = getStatistics agg tws g c sm ?a, admin = ?a\<rparr>"
  have se: "session_entry = (\<lambda>(i, v, socket).
                                     \<lparr>st_userId = user v, st_data = cs_data socket, st_mins5 = mins5 v,
                                      st_total = total v, st_current = current v,
                                      st_upgrade = upgradeClient v\<rparr>)"
    by (auto simp: session_entry_def fun_eq_iff)
  have 1: "api_statistics decodeToken agg tws g c sm q =
                    \<lparr>status_code = 200, headers = [(''Content-Type'', ''application/json'')],
                     body = Some ?b\<rparr>"
    using t by (simp add: api_statistics_def Let_def)
  have 2: "totalClients (stats ?b) = length (sessions sm)"
    by (simp add: getStatistics_def)
  have 3: "activeSessions (stats ?b) k \<noteq> None \<longleftrightarrow> ?a \<and> k \<in> fst ` set (workspaces sm)" for k
    using assms by (force simp: activeSessions_getStatistics map_of_eq_None_iff)
  have 4: "activeSessions (stats ?b) k =
                      Some \<lparr>st_sessions =
                              map (\<lambda>(i, v, socket).
                                     \<lparr>st_userId = user v, st_data = cs_data socket, st_mins5 = mins5 v,
                                      st_total = total v, st_current = current v,
                                      st_upgrade = upgradeClient v\<rparr>) (ws_sessions vv),
                            st_name = workspaceName vv,
                            st_wsId = tws (workspaceId vv),
                            st_sessionsTotal = length (ws_sessions vv),
                            st_upgrading = upgrade vv,
                            st_closing = closing vv\<rparr>"
    if "?a \<and> (k, vv) \<in> set (workspaces sm)" for k vv
  proof -
    from assms that have m: "map_of (workspaces sm) k = Some vv" by simp
    have "activeSessions (stats ?b) k = map_option (workspace_entry tws) (map_of (workspaces sm) k)"
      using assms that by (simp add: activeSessions_getStatistics del: map_of_eq_Some_iff)
    also have "\<dots> = Some (workspace_entry tws vv)"
      by (simp only: m option.map)
    finally show ?thesis
      by (simp add: workspace_entry_def se)
  qed
  show "\<exists>b. api_statistics decodeToken agg tws g c sm q =
                    \<lparr>status_code = 200, headers = [(''Content-Type'', ''application/json'')],
                     body = Some b\<rparr> \<and>
                 admin b = (extra_field t ''admin'' = JStr ''true'') \<and>
                 totalClients (stats b) = length (sessions sm) \<and>
                 (\<forall>k. activeSessions (stats b) k \<noteq> None \<longleftrightarrow>
                        extra_field t ''admin'' = JStr ''true'' \<and> k \<in> fst ` set (workspaces sm)) \<and>
                 (\<forall>k vv. extra_field t ''admin'' = JStr ''true'' \<and> (k, vv) \<in> set (workspaces sm) \<longrightarrow>
                    activeSessions (stats b) k =
                      Some \<lparr>st_sessions =
                              map (\<lambda>(i, v, socket).
                                     \<lparr>st_userId = user v, st_data = cs_data socket, st_mins5 = mins5 v,
                                      st_total = total v, st_current = current v,
                                      st_upgrade = upgradeClient v\<rparr>) (ws_sessions vv),
                            st_name = workspaceName vv,
                            st_wsId = tws (workspaceId vv),
                            st_sessionsTotal = length (ws_sessions vv),
                            st_upgrading = upgrade vv,
                            st_closing = closing vv\<rparr>)"
    apply (rule exI[of _ ?b])
    apply (intro conjI allI impI)
        apply (rule 1)
       apply simp
      apply (rule 2)
     apply (rule 3)
    apply (erule 4)
    done
qed

theorem statistics_endpoint_witness:
  "api_statistics decode_sample metricsAggregate_sample toWorkspaceString_sample () (ctx sample_server)
      (manager sample_server) [''token'' \<mapsto> ''garbage''] =
     \<lparr>status_code = 404, headers = [], body = None\<rparr> \<and>
   (\<exists>b. api_statistics decode_sample metricsAggregate_sample toWorkspaceString_sample () (ctx sample_server)
           (manager sample_server) [''token'' \<mapsto> ''admin-token''] =
          \<lparr>status_code = 200, headers = [(''Content-Type'', ''application/json'')], body = Some b\<rparr> \<and>
        admin b \<and>
        map_option st_sessions (activeSessions (stats b) ''w1@platform'') =
          Some [\<lparr>st_userId = ''user@example.com'',
                  st_data = JObj [(''email'', JStr ''user@example.com'')],
                  st_mins5 = \<lparr>find_count = 3, tx_count = 1\<rparr>,
                  st_total = \<lparr>find_count = 7, tx_count = 2\<rparr>,
                  st_current = \<lparr>find_count = 1, tx_count = 0\<rparr>,
                  st_upgrade = False\<rparr>])"
proof -
  have d: "distinct (map fst (workspaces (manager sample_server)))"
    by (simp add: sample_server_def)
  have t: "decode_query decode_sample [''token'' \<mapsto> ''admin-token''] =
           Some \<lparr>email = ''root@example.com'', workspace = \<lparr>ws_name = ''w1'', productId = ''platform''\<rparr>,
                 extra = Some [(''admin'', JStr ''true'')]\<rparr>"
    by (simp add: decode_query_def decode_sample_def)
  have m: "(''w1@platform'', sample_workspace) \<in> set (workspaces (manager sample_server))"
    by (simp add: sample_server_def)
  have a: "extra_field \<lparr>email = ''root@example.com'',
              workspace = \<lparr>ws_name = ''w1'', productId = ''platform''\<rparr>,
              extra = Some [(''admin'', JStr ''true'')]\<rparr> ''admin'' = JStr ''true''"
    by (simp add: extra_field_def)
  have n: "decode_query decode_sample [''token'' \<mapsto> ''garbage''] = None"
    by (simp add: decode_query_def decode_sample_def)
  from statistics_endpoint [OF d, of decode_sample "[''token'' \<mapsto> ''garbage'']" metricsAggregate_sample
      toWorkspaceString_sample "()" "ctx sample_server"] n
  have 1: "api_statistics decode_sample metricsAggregate_sample toWorkspaceString_sample () (ctx sample_server)
      (manager sample_server) [''token'' \<mapsto> ''garbage''] =
     \<lparr>status_code = 404, headers = [], body = None\<rparr>"
    by blast
  from statistics_endpoint [OF d, of decode_sample "[''token'' \<mapsto> ''admin-token'']" metricsAggregate_sample
      toWorkspaceString_sample "()" "ctx sample_server"] t
  obtain b where b: "api_statistics decode_sample metricsAggregate_sample toWorkspaceString_sample () (ctx sample_server)
           (manager sample_server) [''token'' \<mapsto> ''admin-token''] =
          \<lparr>status_code = 200, headers = [(''Content-Type'', ''application/json'')], body = Some b\<rparr>"
      "admin b = (extra_field \<lparr>email = ''root@example.com'',
              workspace = \<lparr>ws_name = ''w1'', productId = ''platform''\<rparr>,
              extra = Some [(''admin'', JStr ''true'')]\<rparr> ''admin'' = JStr ''true'')"
      "\<forall>k vv. extra_field \<lparr>email = ''root@example.com'',
              workspace = \<lparr>ws_name = ''w1'', productId = ''platform''\<rparr>,
              extra = Some [(''admin'', JStr ''true'')]\<rparr> ''admin'' = JStr ''true'' \<and>
              (k, vv) \<in> set (workspaces (manager sample_server)) \<longrightarrow>
                    activeSessions (stats b) k =
                      Some \<lparr>st_sessions =
                              map (\<lambda>(i, v, socket).
                                     \<lparr>st_userId = user v, st_data = cs_data socket, st_mins5 = mins5 v,
                                      st_total = total v, st_current = current v,
                                      st_upgrade = upgradeClient v\<rparr>) (ws_sessions vv),
                            st_name = workspaceName vv,
                            st_wsId = toWorkspaceString_sample (workspaceId vv),
                            st_sessionsTotal = length (ws_sessions vv),
                            st_upgrading = upgrade vv,
                            st_closing = closing vv\<rparr>"
    by blast
  from b(3) a m have "map_option st_sessions (activeSessions (stats b) ''w1@platform'') =
          Some (map (\<lambda>(i, v, socket).
                                     \<lparr>st_userId = user v, st_data = cs_data socket, st_mins5 = mins5 v,
                                      st_total = total v, st_current = current v,
                                      st_upgrade = upgradeClient v\<rparr>) (ws_sessions sample_workspace))"
    by simp
  then have 2: "map_option st_sessions (activeSessions (stats b) ''w1@platform'') =
          Some [\<lparr>st_userId = ''user@example.com'',
                  st_data = JObj [(''email'', JStr ''user@example.com'')],
                  st_mins5 = \<lparr>find_count = 3, tx_count = 1\<rparr>,
                  st_total = \<lparr>find_count = 7, tx_count = 2\<rparr>,
                  st_current = \<lparr>find_count = 1, tx_count = 0\<rparr>,
                  st_upgrade = False\<rparr>]"
    by (simp add: sample_workspace_def sample_session_def sample_socket_def)
  from b(2) a have 3: "admin b" by simp
  from 1 b(1) 2 3 show ?thesis by blast
qed

section \<open>\<open>wipeStatistics\<close>\<close>

lemma covered_step:
  assumes "covered root (v # toClean)" "cleanMetrics v (root, toClean) = (root', toClean')"
  shows "covered root' toClean'"
proof (cases "deref root v")
  case None
  with assms(2) have eq: "root' = root" "toClean' = toClean" by (auto simp: cleanMetrics_def)
  show ?thesis unfolding covered_def eq
  proof (intro allI impI)
    fix p m assume d: "deref root p = Some m"
    with assms(1) consider "zeroed m" | r p' where "r \<in> set (v # toClean)" "p = r @ p'"
      unfolding covered_def by blast
    then show "zeroed m \<or> (\<exists>r\<in>set toClean. \<exists>p'. p = r @ p')"
    proof cases
      case 1
      then show ?thesis by simp
    next
      case 2
      with d None have "r \<noteq> v" by (auto simp: deref_append)
      with 2 show ?thesis by auto
    qed
  qed
next
  case (Some mv)
  with assms(2) have eq: "root' = assign reset v root" "toClean' = toClean @ map (\<lambda>s. v @ [s]) (steps mv)"
    by (auto simp: cleanMetrics_def)
  show ?thesis unfolding covered_def
  proof (intro allI impI)
    fix p m' assume d': "deref root' p = Some m'"
    with deref_assign[of p v root] obtain m where
      d: "deref root p = Some m" and z: "if p = v then zeroed m' else tops m' = tops m"
      by (cases "deref root p") (auto simp: eq)
    show "zeroed m' \<or> (\<exists>r\<in>set toClean'. \<exists>p'. p = r @ p')"
    proof (cases "p = v")
      case True
      with z show ?thesis by simp
    next
      case False
      with z have t: "tops m' = tops m" by simp
      from assms(1) d consider "zeroed m" | r p' where "r \<in> set (v # toClean)" "p = r @ p'"
        unfolding covered_def by blast
      then show ?thesis
      proof cases
        case 1
        with t show ?thesis by (simp add: zeroed_def tops_def)
      next
        case 2
        show ?thesis
        proof (cases "r = v")
          case True
          with 2 False obtain s p'' where p: "p = v @ s # p''" by (cases p') auto
          with d Some have "sub mv s \<noteq> None" by (auto simp: deref_append split: option.splits)
          then have "v @ [s] \<in> set toClean'" by (simp add: eq steps_iff)
          moreover have "p = (v @ [s]) @ p''" using p by simp
          ultimately show ?thesis by blast
        next
          case False
          with 2 show ?thesis by (auto simp: eq)
        qed
      qed
    qed
  qed
qed

lemma wipe_loop_zeroed:
  "covered root toClean \<Longrightarrow> deref (wipe_loop root toClean) p = Some m \<Longrightarrow> zeroed m"
proof (induction root toClean rule: wipe_loop.induct)
  case (1 root)
  then show ?case by (auto simp: covered_def)
next
  case (2 root v toClean)
  obtain root' toClean' where c: "cleanMetrics v (root, toClean) = (root', toClean')"
    by (cases "cleanMetrics v (root, toClean)")
  from covered_step[OF 2(2) c] have "covered root' toClean'" .
  from 2(1)[OF c[symmetric] this] 2(3) c show ?case by simp
qed

lemma covered_root: "covered root [[]]"
  by (simp add: covered_def)

lemma wipe_loop_shape:
  "rel_option (\<lambda>m m'. steps m' = steps m) (deref root p) (deref (wipe_loop root toClean) p)"
proof (induction root toClean rule: wipe_loop.induct)
  case (1 root)
  then show ?case by (simp add: option.rel_refl)
next
  case (2 root v toClean)
  obtain root' toClean' where c: "cleanMetrics v (root, toClean) = (root', toClean')"
    by (cases "cleanMetrics v (root, toClean)")
  have "rel_option (\<lambda>m m'. steps m' = steps m) (deref root p) (deref root' p)"
  proof (cases "deref root v")
    case None
    with c show ?thesis by (auto simp: cleanMetrics_def option.rel_refl)
  next
    case (Some mv)
    with c have "root' = assign reset v root" by (auto simp: cleanMetrics_def)
    with deref_assign[of p v root] show ?thesis
      by (auto elim!: option.rel_mono_strong)
  qed
  moreover from 2(1)[OF c[symmetric]]
  have "rel_option (\<lambda>m m'. steps m' = steps m) (deref root' p) (deref (wipe_loop root' toClean') p)" .
  ultimately have "rel_option (\<lambda>m m'. steps m' = steps m) (deref root p) (deref (wipe_loop root' toClean') p)"
    by (cases "deref root p"; cases "deref root' p"; cases "deref (wipe_loop root' toClean') p") auto
  with c show ?case by simp
qed

text \<open>
  C8. The operation \<open>wipe-statistics\<close> with an administrator's token answers 200 and
  replaces the measure context by \<open>wipeStatistics\<close> of it; the session manager (its map
  \<open>workspaces\<close> with the sessions of every workspace, and its index \<open>sessions\<close>) and
  the calls made on it are as before. After the wipe the tree of metrics has the nodes
  it had before, and every node that a reference reaches has \<open>operations = 0\<close>,
  \<open>value = 0\<close> and \<open>topResult = undefined\<close>.
\<close>

theorem wipe_statistics_zeroes_counters:
  assumes "decode_query decodeToken q = Some t"
      and "extra_field t ''admin'' = JStr ''true''"
      and "q ''operation'' = Some ''wipe-statistics''"
  shows "api_manage decodeToken q s =
           (Responded \<lparr>status_code = 200, headers = [], body = None\<rparr>,
            s\<lparr>ctx := wipeStatistics (ctx s)\<rparr>) \<and>
         manager (snd (api_manage decodeToken q s)) = manager s \<and>
         workspaces (manager (snd (api_manage decodeToken q s))) = workspaces (manager s) \<and>
         sessions (manager (snd (api_manage decodeToken q s))) = sessions (manager s) \<and>
         calls (snd (api_manage decodeToken q s)) = calls s \<and>
         (\<forall>m. ctx s = MeasureMetricsContext m \<longrightarrow>
            (\<exists>m'. ctx (snd (api_manage decodeToken q s)) = MeasureMetricsContext m' \<and>
               (\<forall>p. (deref m' p = None \<longleftrightarrow> deref m p = None) \<and>
                    (\<forall>n. deref m' p = Some n \<longrightarrow>
                       operations n = 0 \<and> mvalue n = 0 \<and> topResult n = None))))"
proof -
  have r: "api_manage decodeToken q s =
           (Responded \<lparr>status_code = 200, headers = [], body = None\<rparr>,
            s\<lparr>ctx := wipeStatistics (ctx s)\<rparr>)"
    using assms by (simp add: api_manage_def ok_def Let_def)
  have z: "\<exists>m'. wipeStatistics (MeasureMetricsContext m) = MeasureMetricsContext m' \<and>
               (\<forall>p. (deref m' p = None \<longleftrightarrow> deref m p = None) \<and>
                    (\<forall>n. deref m' p = Some n \<longrightarrow>
                       operations n = 0 \<and> mvalue n = 0 \<and> topResult n = None))" for m
  proof (intro exI[of _ "wipe_loop m [[]]"] conjI allI impI)
    show "wipeStatistics (MeasureMetricsContext m) = MeasureMetricsContext (wipe_loop m [[]])"
      by simp
  next
    fix p
    from wipe_loop_shape[of m p "[[]]"]
    show "deref (wipe_loop m [[]]) p = None \<longleftrightarrow> deref m p = None"
      by (cases "deref m p"; cases "deref (wipe_loop m [[]]) p") auto
  next
    fix p n assume "deref (wipe_loop m [[]]) p = Some n"
    from wipe_loop_zeroed[OF covered_root this]
    show "operations n = 0" "mvalue n = 0" "topResult n = None"
      by (simp_all add: zeroed_def)
  qed
  show ?thesis
    unfolding r using z by auto
qed

theorem wipe_statistics_zeroes_counters_witness:
  "api_manage decode_sample (sample_query ''admin-token'' ''wipe-statistics'') sample_server =
     (Responded \<lparr>status_code = 200, headers = [], body = None\<rparr>,
      sample_server\<lparr>ctx := MeasureMetricsContext
        (Metrics 0 0 None []
           [(''method'', [(''findAll'', MetricsData 0 0 None), (''tx'', MetricsData 0 0 None)])]
           [(''w1'', Metrics 0 0 None [] [] [(''send-data'', MetricsData 0 0 None)])])\<rparr>)"
  using wipe_statistics_zeroes_counters [of decode_sample "sample_query ''admin-token'' ''wipe-statistics''"
      "\<lparr>email = ''root@example.com'', workspace = \<lparr>ws_name = ''w1'', productId = ''platform''\<rparr>,
        extra = Some [(''admin'', JStr ''true'')]\<rparr>" sample_server]
  by (simp add: decode_query_def decode_sample_def sample_query_def extra_field_def sample_server_def
      sample_metrics_def cleanMetrics_def value_at_def modify_at_def)

end
